theory Spec2Isabelle
  imports Main
begin

chapter \<open>The guessing game page\<close>

text \<open>
  The repository holds three versions of one React component, \<open>QBGuessingGame\<close>:
  \<^item> \<open>frontend/pfr-guesser-frontend/app/page.tsx\<close>, with a daily and an unlimited mode;
  \<^item> unnamed/part_000, the multi-position page, which adds the player's position, the
    recovery from an expired session and a \<open>Give Up\<close> button;
  \<^item> unnamed/part_001, with random games only.

  The component is modelled as a state record and its handlers as functions on that
  record that take the replies of the server as arguments. The server itself is not
  among the source files and appears only through these replies.
  Definitions of the multi-position page carry the names of the source; those of
  \<open>app/page.tsx\<close> end in \<open>_page\<close>, those of unnamed/part_001 in \<open>_random\<close>.
\<close>

section \<open>JavaScript strings\<close>

text \<open>
  A JavaScript string is a sequence of UTF-16 code units, so it is modelled as a list
  of natural numbers; \<open>js\<close> embeds an ASCII literal of the source.
\<close>

type_synonym jsstring = "nat list"

definition js :: "string \<Rightarrow> jsstring" where
  "js s = map of_char s"

text \<open>
  \<open>String.prototype.trim\<close> strips the ECMAScript WhiteSpace and LineTerminator
  code points from both ends: TAB, LF, VT, FF, CR, SP, NBSP, U+1680, U+2000..U+200A,
  U+2028, U+2029, U+202F, U+205F, U+3000 and U+FEFF. All of them are in the basic plane,
  so the test on code units is exact.
\<close>

definition isWhiteSpace :: "nat \<Rightarrow> bool" where
  "isWhiteSpace u =
     (u = 9 \<or> u = 10 \<or> u = 11 \<or> u = 12 \<or> u = 13 \<or> u = 32 \<or> u = 160 \<or> u = 5760
      \<or> (8192 \<le> u \<and> u \<le> 8202) \<or> u = 8232 \<or> u = 8233 \<or> u = 8239 \<or> u = 8287
      \<or> u = 12288 \<or> u = 65279)"

definition trim :: "jsstring \<Rightarrow> jsstring" where
  "trim s = rev (dropWhile isWhiteSpace (rev (dropWhile isWhiteSpace s)))"

fun startsWith :: "jsstring \<Rightarrow> jsstring \<Rightarrow> bool" where
  "startsWith s [] = True"
| "startsWith [] (p # ps) = False"
| "startsWith (x # xs) (p # ps) = (x = p \<and> startsWith xs ps)"

text \<open>\<open>includes_js s p\<close> is \<open>s.includes(p)\<close>: \<open>p\<close> occurs in \<open>s\<close> as a substring.\<close>

fun includes_js :: "jsstring \<Rightarrow> jsstring \<Rightarrow> bool" where
  "includes_js [] p = (p = [])"
| "includes_js (x # xs) p = (startsWith (x # xs) p \<or> includes_js xs p)"

text \<open>
  \<open>encodeURIComponent(s)\<close> throws a \<open>URIError\<close> when \<open>s\<close> holds an unpaired surrogate: a
  code unit in \<open>D800..DBFF\<close> that no code unit in \<open>DC00..DFFF\<close> follows, or a code unit
  in \<open>DC00..DFFF\<close> that does not follow one in \<open>D800..DBFF\<close>. \<open>encodable s\<close> holds when
  the call returns.
\<close>

fun encodable :: "jsstring \<Rightarrow> bool" where
  "encodable [] = True"
| "encodable [u] = (\<not> (55296 \<le> u \<and> u \<le> 57343))"
| "encodable (u # v # us) =
     (if 55296 \<le> u \<and> u \<le> 56319 then 56320 \<le> v \<and> v \<le> 57343 \<and> encodable us
      else if 56320 \<le> u \<and> u \<le> 57343 then False
      else encodable (v # us))"

text \<open>
  Truthiness of a \<open>string | null\<close> value: \<open>null\<close>, \<open>undefined\<close> and the empty string
  are falsy. \<open>orElse d dflt\<close> is \<open>d || dflt\<close>.
\<close>

definition truthy :: "jsstring option \<Rightarrow> bool" where
  "truthy v = (case v of None \<Rightarrow> False | Some x \<Rightarrow> x \<noteq> [])"

definition orElse :: "jsstring option \<Rightarrow> jsstring \<Rightarrow> jsstring" where
  "orElse v dflt = (case v of None \<Rightarrow> dflt | Some x \<Rightarrow> if x = [] then dflt else x)"


section \<open>Data of the client\<close>

datatype GameMode = Daily | Unlimited

datatype Position = QB | WR | RB

datatype Era = Same | Far

text \<open>
  \<open>SeasonStats\<close>: the fields common to the three versions of the page. The stat
  columns are only printed by the table and read by no handler, so they are left out.
\<close>

record SeasonStats =
  season :: int
  team :: "jsstring option"
  games :: "int option"
  awards :: "jsstring option"

text \<open>
  \<open>GuessResult\<close>. The optional fields \<open>era?\<close>, \<open>teams_overlap?\<close> and \<open>pfr_id?\<close> are
  \<open>None\<close> when undefined.
\<close>

record GuessResult =
  name :: jsstring
  correct :: bool
  era :: "Era option"
  teams_overlap :: "bool option"
  pfr_id :: "jsstring option"

definition MAX_GUESSES :: nat where
  "MAX_GUESSES = 8"

text \<open>
  The React state of \<open>QBGuessingGame\<close>, one field for each \<open>useState\<close>. The record is
  the one of the multi-position page (unnamed/part_000); \<open>app/page.tsx\<close> has no
  \<open>position\<close>, \<open>answerPosition\<close> and \<open>selectedSuggestionIndex\<close>, and unnamed/part_001
  has in addition no \<open>gameMode\<close> and \<open>answerPfrId\<close>: their handlers never write these.
\<close>

record client =
  gameMode :: GameMode
  sessionId :: "jsstring option"
  position :: Position
  seasons :: "SeasonStats list"
  guess :: jsstring
  guesses :: "GuessResult list"
  loading :: bool
  error :: "jsstring option"
  gameWon :: bool
  gameLost :: bool
  answer :: "jsstring option"
  answerPfrId :: "jsstring option"
  answerPosition :: "Position option"
  copied :: bool
  showSeasons :: bool
  showTeams :: bool
  showAwards :: bool
  showHelp :: bool
  suggestions :: "jsstring list"
  showSuggestions :: bool
  selectedSuggestionIndex :: int

definition initial :: client where
  "initial =
     \<lparr>gameMode = Daily, sessionId = None, position = QB, seasons = [], guess = [],
      guesses = [], loading = True, error = None, gameWon = False, gameLost = False,
      answer = None, answerPfrId = None, answerPosition = None, copied = False,
      showSeasons = False, showTeams = False, showAwards = False, showHelp = False,
      suggestions = [], showSuggestions = False, selectedSuggestionIndex = -1\<rparr>"


section \<open>The server as seen by the client\<close>

text \<open>
  The requests a handler sends, in the order it sends them: \<open>POST_guess g sid\<close> carries
  the body \<open>{guess, session_id}\<close>, \<open>POST_reveal sid\<close> the body \<open>{session_id}\<close>.
\<close>

datatype request =
    GET_daily_qb
  | GET_random_qb
  | POST_guess jsstring jsstring
  | POST_reveal jsstring
  | GET_autocomplete jsstring

text \<open>
  What one \<open>fetch\<close> gives back. \<open>Threw m\<close>: \<open>fetch\<close> or \<open>res.json()\<close> rejected with an
  \<open>Error\<close> whose message is \<open>m\<close>. \<open>Ok d\<close>: \<open>res.ok\<close> holds and the body parsed to
  \<open>d\<close>. \<open>NotOk st detail\<close>: \<open>res.ok\<close> is false, \<open>res.status\<close> is \<open>st\<close> and the body
  parsed to an object whose \<open>detail\<close> field is \<open>detail\<close> (\<open>None\<close> when absent).
\<close>

datatype 'a reply = Threw jsstring | Ok 'a | NotOk nat "jsstring option"

record Feedback =
  fb_era :: "Era option"
  fb_teams_overlap :: "bool option"

record GuessData =
  data_correct :: bool
  data_feedback :: "Feedback option"
  data_pfr_id :: "jsstring option"

record RevealData =
  reveal_name :: jsstring
  reveal_pfr_id :: "jsstring option"
  reveal_position :: "Position option"

record GameData =
  session_id :: jsstring
  game_seasons :: "SeasonStats list"
  game_position :: "Position option"


section \<open>app/page.tsx\<close>

text \<open>
  A handler is a closure of the render it was created in: what it reads (\<open>guess\<close>,
  \<open>guesses\<close>, \<open>gameWon\<close>, \<open>gameLost\<close>, \<open>sessionId\<close>, \<open>gameMode\<close>) are the values of that
  render, and its setters write the current state. So every handler takes the replies
  the server gives to the requests it may send, the render \<open>c\<close> it was created in and
  the state \<open>s\<close> its setters write, and returns the state after its setters together
  with the requests it sent. When a handler runs to its end before anything else
  happens, \<open>c\<close> and \<open>s\<close> are the same; \<open>loadQB\<close> reads nothing of the render.
\<close>

definition loadQB :: "GameMode \<Rightarrow> GameData reply \<Rightarrow> client \<Rightarrow> client \<times> request list" where
  "loadQB mode r s =
     (let s1 = s\<lparr>loading := True, error := None\<rparr>;
          endpoint = (if mode = Daily then GET_daily_qb else GET_random_qb);
          s2 = (case r of
                  Ok data \<Rightarrow>
                    s1\<lparr>sessionId := Some (session_id data), seasons := game_seasons data,
                       gameMode := mode, guesses := [], gameWon := False, gameLost := False,
                       answer := None, answerPfrId := None, guess := [],
                       showSeasons := False, showTeams := False, showAwards := False\<rparr>
                | _ \<Rightarrow> s1\<lparr>error := Some (js ''Failed to load game. Please refresh the page.'')\<rparr>)
      in (s2\<lparr>loading := False\<rparr>, [endpoint]))"

definition revealAnswer_page ::
  "RevealData reply \<Rightarrow> client \<Rightarrow> client \<Rightarrow> client \<times> request list" where
  "revealAnswer_page r c s =
     (case sessionId c of
        None \<Rightarrow> (s, [])
      | Some sid \<Rightarrow>
          if sid = [] then (s, [])
          else (case r of
                  Ok data \<Rightarrow>
                    (s\<lparr>answer := Some (reveal_name data), answerPfrId := reveal_pfr_id data,
                       gameLost := True\<rparr>, [POST_reveal sid])
                | _ \<Rightarrow> (s\<lparr>error := Some (js ''Failed to reveal answer'')\<rparr>, [POST_reveal sid])))"

definition submitGuess_page ::
  "GuessData reply \<Rightarrow> RevealData reply \<Rightarrow> client \<Rightarrow> client \<Rightarrow> client \<times> request list" where
  "submitGuess_page rg rr c s =
     (if trim (guess c) = [] \<or> gameWon c \<or> gameLost c \<or> \<not> truthy (sessionId c) then (s, [])
      else if length (guesses c) \<ge> MAX_GUESSES then (s, [])
      else
        (let req = POST_guess (guess c) (orElse (sessionId c) [])  \<comment> \<open>\<open>sessionId\<close> is truthy here\<close>
         in case rg of
              Threw m \<Rightarrow> (s\<lparr>error := Some m\<rparr>, [req])
            | NotOk st detail \<Rightarrow> (s\<lparr>error := Some (orElse detail (js ''Guess failed''))\<rparr>, [req])
            | Ok data \<Rightarrow>
                (let newGuesses = guesses c @
                       [\<lparr>name = guess c, correct = data_correct data,
                         era = (case data_feedback data of None \<Rightarrow> None | Some f \<Rightarrow> fb_era f),
                         teams_overlap =
                           (case data_feedback data of None \<Rightarrow> None | Some f \<Rightarrow> fb_teams_overlap f),
                         pfr_id = data_pfr_id data\<rparr>];
                     s1 = s\<lparr>guesses := newGuesses\<rparr>;
                     (s2, reqs) =
                       (if data_correct data then (s1\<lparr>gameWon := True\<rparr>, [])
                        else if length newGuesses \<ge> MAX_GUESSES then revealAnswer_page rr c s1
                        else (s1, []))
                 in (s2\<lparr>guess := [], suggestions := [], showSuggestions := False\<rparr>, req # reqs))))"


section \<open>unnamed/part_000: the multi-position page\<close>

definition loadGame :: "GameMode \<Rightarrow> GameData reply \<Rightarrow> client \<Rightarrow> client \<times> request list" where
  "loadGame mode r s =
     (let s1 = s\<lparr>loading := True, error := None\<rparr>;
          endpoint = (if mode = Daily then GET_daily_qb else GET_random_qb);
          s2 = (case r of
                  Ok data \<Rightarrow>
                    s1\<lparr>sessionId := Some (session_id data), seasons := game_seasons data,
                       position := (case game_position data of None \<Rightarrow> QB | Some p \<Rightarrow> p),
                       gameMode := mode, guesses := [], gameWon := False, gameLost := False,
                       answer := None, answerPfrId := None, answerPosition := None, guess := [],
                       showSeasons := False, showTeams := False, showAwards := False\<rparr>
                | _ \<Rightarrow> s1\<lparr>error := Some (js ''Failed to load game. Please refresh the page.'')\<rparr>)
      in (s2\<lparr>loading := False\<rparr>, [endpoint]))"

text \<open>
  The branch for an expired session (status 404, message mentioning
  \<open>Session not found\<close>) awaits \<open>loadGame(gameMode)\<close>, then sets \<open>error\<close> to a
  notice. It also starts a timer that clears \<open>error\<close> three seconds later; that later
  write is the event \<open>SetError\<close> below.
\<close>

definition revealAnswer ::
  "RevealData reply \<Rightarrow> GameData reply \<Rightarrow> client \<Rightarrow> client \<Rightarrow> client \<times> request list" where
  "revealAnswer r rl c s =
     (case sessionId c of
        None \<Rightarrow> (s, [])
      | Some sid \<Rightarrow>
          if sid = [] then (s, [])
          else (case r of
                  Threw m \<Rightarrow> (s\<lparr>error := Some m\<rparr>, [POST_reveal sid])
                | NotOk st detail \<Rightarrow>
                    (let errorMessage = orElse detail (js ''Failed to reveal answer'')
                     in if st = 404 \<and> includes_js errorMessage (js ''Session not found'')
                        then (let (s1, reqs) = loadGame (gameMode c) rl s
                              in (s1\<lparr>error := Some (js ''Your session expired. A new game has been loaded!'')\<rparr>,
                                  POST_reveal sid # reqs))
                        else (s\<lparr>error := Some errorMessage\<rparr>, [POST_reveal sid]))
                | Ok data \<Rightarrow>
                    (s\<lparr>answer := Some (reveal_name data), answerPfrId := reveal_pfr_id data,
                       answerPosition := reveal_position data, gameLost := True\<rparr>,
                     [POST_reveal sid])))"

definition submitGuess ::
  "GuessData reply \<Rightarrow> RevealData reply \<Rightarrow> GameData reply \<Rightarrow> client \<Rightarrow> client
     \<Rightarrow> client \<times> request list" where
  "submitGuess rg rr rl c s =
     (if trim (guess c) = [] \<or> gameWon c \<or> gameLost c \<or> \<not> truthy (sessionId c) then (s, [])
      else if length (guesses c) \<ge> MAX_GUESSES then (s, [])
      else
        (let req = POST_guess (guess c) (orElse (sessionId c) [])  \<comment> \<open>\<open>sessionId\<close> is truthy here\<close>
         in case rg of
              Threw m \<Rightarrow> (s\<lparr>error := Some m\<rparr>, [req])
            | NotOk st detail \<Rightarrow>
                (let errorMessage = orElse detail (js ''Guess failed'')
                 in if st = 404 \<and> includes_js errorMessage (js ''Session not found'')
                    then (let (s1, reqs) = loadGame (gameMode c) rl s
                          in (s1\<lparr>error := Some (js ''Your session expired. A new game has been loaded!'')\<rparr>,
                              req # reqs))
                    else (s\<lparr>error := Some errorMessage\<rparr>, [req]))
            | Ok data \<Rightarrow>
                (let newGuesses = guesses c @
                       [\<lparr>name = guess c, correct = data_correct data,
                         era = (case data_feedback data of None \<Rightarrow> None | Some f \<Rightarrow> fb_era f),
                         teams_overlap =
                           (case data_feedback data of None \<Rightarrow> None | Some f \<Rightarrow> fb_teams_overlap f),
                         pfr_id = data_pfr_id data\<rparr>];
                     s1 = s\<lparr>guesses := newGuesses\<rparr>;
                     (s2, reqs) =
                       (if data_correct data then (s1\<lparr>gameWon := True\<rparr>, [])
                        else if length newGuesses \<ge> MAX_GUESSES then revealAnswer rr rl c s1
                        else (s1, []))
                 in (s2\<lparr>guess := [], suggestions := [], showSuggestions := False\<rparr>, req # reqs))))"


section \<open>unnamed/part_001: the page with random games only\<close>

definition loadQB_random :: "GameData reply \<Rightarrow> client \<Rightarrow> client \<times> request list" where
  "loadQB_random r s =
     (let s1 = s\<lparr>loading := True, error := None\<rparr>;
          s2 = (case r of
                  Ok data \<Rightarrow>
                    s1\<lparr>sessionId := Some (session_id data), seasons := game_seasons data,
                       guesses := [], gameWon := False, gameLost := False,
                       answer := None, guess := [],
                       showSeasons := False, showTeams := False, showAwards := False\<rparr>
                | _ \<Rightarrow> s1\<lparr>error := Some (js ''Failed to load game. Please refresh the page.'')\<rparr>)
      in (s2\<lparr>loading := False\<rparr>, [GET_random_qb]))"

definition revealAnswer_random ::
  "RevealData reply \<Rightarrow> client \<Rightarrow> client \<Rightarrow> client \<times> request list" where
  "revealAnswer_random r c s =
     (case sessionId c of
        None \<Rightarrow> (s, [])
      | Some sid \<Rightarrow>
          if sid = [] then (s, [])
          else (case r of
                  Ok data \<Rightarrow>
                    (s\<lparr>answer := Some (reveal_name data), gameLost := True\<rparr>, [POST_reveal sid])
                | _ \<Rightarrow> (s\<lparr>error := Some (js ''Failed to reveal answer'')\<rparr>, [POST_reveal sid])))"

definition submitGuess_random ::
  "GuessData reply \<Rightarrow> RevealData reply \<Rightarrow> client \<Rightarrow> client \<Rightarrow> client \<times> request list" where
  "submitGuess_random rg rr c s =
     (if trim (guess c) = [] \<or> gameWon c \<or> gameLost c \<or> \<not> truthy (sessionId c) then (s, [])
      else if length (guesses c) \<ge> MAX_GUESSES then (s, [])
      else
        (let req = POST_guess (guess c) (orElse (sessionId c) [])  \<comment> \<open>\<open>sessionId\<close> is truthy here\<close>
         in case rg of
              Threw m \<Rightarrow> (s\<lparr>error := Some m\<rparr>, [req])
            | NotOk st detail \<Rightarrow> (s\<lparr>error := Some (orElse detail (js ''Guess failed''))\<rparr>, [req])
            | Ok data \<Rightarrow>
                (let newGuesses = guesses c @
                       [\<lparr>name = guess c, correct = data_correct data,
                         era = (case data_feedback data of None \<Rightarrow> None | Some f \<Rightarrow> fb_era f),
                         teams_overlap =
                           (case data_feedback data of None \<Rightarrow> None | Some f \<Rightarrow> fb_teams_overlap f),
                         pfr_id = None\<rparr>];
                     s1 = s\<lparr>guesses := newGuesses\<rparr>;
                     (s2, reqs) =
                       (if data_correct data then (s1\<lparr>gameWon := True\<rparr>, [])
                        else if length newGuesses \<ge> MAX_GUESSES then revealAnswer_random rr c s1
                        else (s1, []))
                 in (s2\<lparr>guess := [], suggestions := [], showSuggestions := False\<rparr>, req # reqs))))"


section \<open>Events\<close>

text \<open>
  The things that can happen to the page, each with the replies of the server where a
  handler sends requests.
  \<^item> \<open>Load mode r\<close>: \<open>loadGame(mode)\<close> (\<open>loadQB\<close> in the older pages), called by the
    mount effect, the mode buttons, \<open>Try Again\<close> and \<open>New Game\<close>.
  \<^item> \<open>SetGuess g\<close>: \<open>setGuess(g)\<close>, from typing, from a click on a suggestion and
    from the keyboard selection of one.
  \<^item> \<open>Submit\<close>: \<open>submitGuess()\<close>, from the \<open>Guess\<close> button and the Enter key.
  \<^item> \<open>GiveUp\<close>: the \<open>Give Up\<close> button of the multi-position page, which calls
    \<open>revealAnswer\<close> and is disabled when \<open>gameWon || gameLost\<close>. The older pages
    have no such button.
  \<^item> the remaining setters, which hints, help, sharing, the suggestion list and the
    timers call: every other handler of the pages is a sequence of these.
\<close>

datatype event =
    Load GameMode "GameData reply"
  | SetGuess jsstring
  | Submit "GuessData reply" "RevealData reply" "GameData reply"
  | GiveUp "RevealData reply" "GameData reply"
  | SetShowSeasons
  | SetShowTeams
  | SetShowAwards
  | SetShowHelp bool
  | SetCopied bool
  | SetError "jsstring option"
  | SetSuggestions "jsstring list"
  | SetShowSuggestions bool
  | SetSelectedSuggestionIndex int

fun setter :: "client \<Rightarrow> event \<Rightarrow> client" where
  "setter s (SetGuess g) = s\<lparr>guess := g\<rparr>"
| "setter s SetShowSeasons = s\<lparr>showSeasons := True\<rparr>"
| "setter s SetShowTeams = s\<lparr>showTeams := True\<rparr>"
| "setter s SetShowAwards = s\<lparr>showAwards := True\<rparr>"
| "setter s (SetShowHelp b) = s\<lparr>showHelp := b\<rparr>"
| "setter s (SetCopied b) = s\<lparr>copied := b\<rparr>"
| "setter s (SetError e) = s\<lparr>error := e\<rparr>"
| "setter s (SetSuggestions xs) = s\<lparr>suggestions := xs\<rparr>"
| "setter s (SetShowSuggestions b) = s\<lparr>showSuggestions := b\<rparr>"
| "setter s (SetSelectedSuggestionIndex i) = s\<lparr>selectedSuggestionIndex := i\<rparr>"
| "setter s _ = s"

fun step :: "client \<Rightarrow> event \<Rightarrow> client \<times> request list" where
  "step s (Load mode r) = loadGame mode r s"
| "step s (Submit rg rr rl) = submitGuess rg rr rl s s"
| "step s (GiveUp rr rl) = (if gameWon s \<or> gameLost s then (s, []) else revealAnswer rr rl s s)"
| "step s e = (setter s e, [])"

fun step_page :: "client \<Rightarrow> event \<Rightarrow> client \<times> request list" where
  "step_page s (Load mode r) = loadQB mode r s"
| "step_page s (Submit rg rr rl) = submitGuess_page rg rr s s"
| "step_page s (GiveUp rr rl) = (s, [])"
| "step_page s e = (setter s e, [])"

fun step_random :: "client \<Rightarrow> event \<Rightarrow> client \<times> request list" where
  "step_random s (Load mode r) = loadQB_random r s"
| "step_random s (Submit rg rr rl) = submitGuess_random rg rr s s"
| "step_random s (GiveUp rr rl) = (s, [])"
| "step_random s e = (setter s e, [])"

text \<open>
  \<open>run stp s evs\<close>: the state after the events \<open>evs\<close>, each handled to its end in the
  render of the state it finds, and all the requests sent.
\<close>

fun run ::
  "(client \<Rightarrow> event \<Rightarrow> client \<times> request list) \<Rightarrow> client \<Rightarrow> event list \<Rightarrow> client \<times> request list" where
  "run stp s [] = (s, [])"
| "run stp s (e # es) =
     (let (s1, reqs1) = stp s e; (s2, reqs2) = run stp s1 es in (s2, reqs1 @ reqs2))"

fun isGuessing :: "event \<Rightarrow> bool" where
  "isGuessing (Submit rg rr rl) = True"
| "isGuessing (SetGuess g) = True"
| "isGuessing _ = False"

text \<open>
  \<open>accepts c\<close>: in the render \<open>c\<close> neither of the two guards at the head of
  \<open>submitGuess\<close> returns, so the handler goes on to send the guess.
\<close>

definition accepts :: "client \<Rightarrow> bool" where
  "accepts c =
     (trim (guess c) \<noteq> [] \<and> \<not> gameWon c \<and> \<not> gameLost c \<and> truthy (sessionId c)
      \<and> length (guesses c) < MAX_GUESSES)"

definition flagsExclusive :: "client \<Rightarrow> bool" where
  "flagsExclusive s = (\<not> (gameWon s \<and> gameLost s))"


section \<open>Colour of a recorded guess\<close>

text \<open>
  The class string computed for each row of the list of guesses. \<open>app/page.tsx\<close> and
  unnamed/part_001 have the same text; the multi-position page computes a pair
  \<open>(bgClass, textClass)\<close>. A \<open>teams_overlap\<close> that is undefined is falsy.
\<close>

definition bgClass_page :: "GuessResult \<Rightarrow> string" where
  "bgClass_page g =
     (if correct g then ''bg-gradient-to-r from-green-500 to-emerald-500 text-white shadow-lg''
      else if teams_overlap g = Some True
        then ''bg-gradient-to-r from-orange-400 to-amber-400 text-white shadow-md''
      else if era g = Some Same
        then ''bg-gradient-to-r from-yellow-400 to-yellow-500 text-slate-900 shadow-md''
      else ''bg-slate-700 text-slate-300'')"

definition bgClass :: "GuessResult \<Rightarrow> string \<times> string" where
  "bgClass g =
     (if correct g
        then (''bg-gradient-to-r from-[#22c55e] to-[#16a34a] border-transparent'', ''text-white'')
      else if teams_overlap g = Some True
        then (''bg-gradient-to-r from-[#f59e0b] to-[#d97706] border-transparent'', ''text-white'')
      else if era g = Some Same
        then (''bg-gradient-to-r from-[#eab308] to-[#ca8a04] border-transparent'', ''text-[#0c0f1a]'')
      else (''bg-[#374151] border-[#4b5563]'', ''text-[#9ca3af]''))"

datatype colour = Green | Orange | Yellow | Neutral

text \<open>
  The colour a class string of the pages paints, \<open>None\<close> for any other string. The
  multi-position page gives its colours as hex codes; its legend shows \<open>#22c55e\<close> for
  the correct answer, \<open>#f59e0b\<close> for a shared team and \<open>#eab308\<close> for the same era.
\<close>

definition colour_page :: "string \<Rightarrow> colour option" where
  "colour_page c =
     (if c = ''bg-gradient-to-r from-green-500 to-emerald-500 text-white shadow-lg'' then Some Green
      else if c = ''bg-gradient-to-r from-orange-400 to-amber-400 text-white shadow-md'' then Some Orange
      else if c = ''bg-gradient-to-r from-yellow-400 to-yellow-500 text-slate-900 shadow-md''
        then Some Yellow
      else if c = ''bg-slate-700 text-slate-300'' then Some Neutral
      else None)"

definition colour_multi :: "string \<times> string \<Rightarrow> colour option" where
  "colour_multi c =
     (if fst c = ''bg-gradient-to-r from-[#22c55e] to-[#16a34a] border-transparent'' then Some Green
      else if fst c = ''bg-gradient-to-r from-[#f59e0b] to-[#d97706] border-transparent'' then Some Orange
      else if fst c = ''bg-gradient-to-r from-[#eab308] to-[#ca8a04] border-transparent'' then Some Yellow
      else if fst c = ''bg-[#374151] border-[#4b5563]'' then Some Neutral
      else None)"


section \<open>The autocomplete effect\<close>

text \<open>
  The effect with dependency \<open>[guess]\<close>. Time is a clock in milliseconds. The pending
  timeout is \<open>Some (due, q)\<close>: the callback runs once the clock has reached \<open>due\<close>, and
  asks for the suggestions for \<open>q\<close>, the \<open>guess\<close> of the render that set it. The effect
  of \<open>app/page.tsx\<close> and of unnamed/part_001 is the same text, with a delay of 250; the
  one of the multi-position page has a delay of 200 and also resets the selected index.
\<close>

type_synonym timeout = "(nat \<times> jsstring) option"

definition autocompleteEffect_page :: "nat \<Rightarrow> client \<Rightarrow> client \<times> timeout" where
  "autocompleteEffect_page now s =
     (if trim (guess s) = [] then (s\<lparr>suggestions := []\<rparr>, None)
      else (s, Some (now + 250, guess s)))"

definition autocompleteEffect :: "nat \<Rightarrow> client \<Rightarrow> client \<times> timeout" where
  "autocompleteEffect now s =
     (if trim (guess s) = [] then (s\<lparr>suggestions := [], selectedSuggestionIndex := -1\<rparr>, None)
      else (s, Some (now + 200, guess s)))"

text \<open>
  \<open>setGuess(g)\<close> at time \<open>now\<close>. When the value is the one the state already has, React
  does not run the effect again. Otherwise the cleanup of the previous run,
  \<open>clearTimeout(timeout)\<close>, drops the pending timeout, and the effect runs on the new
  value.
\<close>

definition changeGuess_page :: "nat \<Rightarrow> jsstring \<Rightarrow> client \<times> timeout \<Rightarrow> client \<times> timeout" where
  "changeGuess_page now g st =
     (if g = guess (fst st) then st else autocompleteEffect_page now ((fst st)\<lparr>guess := g\<rparr>))"

definition changeGuess :: "nat \<Rightarrow> jsstring \<Rightarrow> client \<times> timeout \<Rightarrow> client \<times> timeout" where
  "changeGuess now g st =
     (if g = guess (fst st) then st else autocompleteEffect now ((fst st)\<lparr>guess := g\<rparr>))"

text \<open>
  The clock reaches \<open>now\<close>: a timeout that is due runs its callback. The callback
  first builds the URL with \<open>encodeURIComponent(guess)\<close>, inside its \<open>try\<close>: when that
  throws, nothing is sent and the \<open>catch\<close> empties the suggestions. Otherwise the
  request is sent and \<open>r\<close> is the reply to it; \<open>Ok players\<close> carries \<open>data.players\<close>,
  \<open>None\<close> when absent.
\<close>

definition tick_page ::
  "nat \<Rightarrow> jsstring list option reply \<Rightarrow> client \<times> timeout \<Rightarrow> (client \<times> timeout) \<times> request list" where
  "tick_page now r st =
     (case snd st of
        None \<Rightarrow> (st, [])
      | Some (due, q) \<Rightarrow>
          if now < due then (st, [])
          else if \<not> encodable q then (((fst st)\<lparr>suggestions := []\<rparr>, None), [])
          else ((case r of
                   Ok players \<Rightarrow>
                     (fst st)\<lparr>suggestions := (case players of None \<Rightarrow> [] | Some ps \<Rightarrow> ps),
                              showSuggestions := True\<rparr>
                 | _ \<Rightarrow> (fst st)\<lparr>suggestions := []\<rparr>, None),
                [GET_autocomplete q]))"

definition tick ::
  "nat \<Rightarrow> jsstring list option reply \<Rightarrow> client \<times> timeout \<Rightarrow> (client \<times> timeout) \<times> request list" where
  "tick now r st =
     (case snd st of
        None \<Rightarrow> (st, [])
      | Some (due, q) \<Rightarrow>
          if now < due then (st, [])
          else if \<not> encodable q then (((fst st)\<lparr>suggestions := []\<rparr>, None), [])
          else ((case r of
                   Ok players \<Rightarrow>
                     (fst st)\<lparr>suggestions := (case players of None \<Rightarrow> [] | Some ps \<Rightarrow> ps),
                              showSuggestions := True, selectedSuggestionIndex := -1\<rparr>
                 | _ \<Rightarrow> (fst st)\<lparr>suggestions := []\<rparr>, None),
                [GET_autocomplete q]))"


section \<open>Example values\<close>

text \<open>
  A game in progress with a name typed, the same game with seven and with eight wrong
  guesses recorded, and replies of the server.
\<close>

definition playing :: client where
  "playing = initial\<lparr>sessionId := Some (js ''s1''), loading := False, guess := js ''Tom Brady''\<rparr>"

definition wrong :: GuessResult where
  "wrong = \<lparr>name = js ''Eli Manning'', correct = False, era = Some Far,
            teams_overlap = Some False, pfr_id = None\<rparr>"

definition lastChance :: client where
  "lastChance = playing\<lparr>guesses := replicate 7 wrong\<rparr>"

definition exhausted :: client where
  "exhausted = playing\<lparr>guesses := replicate 8 wrong\<rparr>"

definition hit :: GuessData where
  "hit = \<lparr>data_correct = True, data_feedback = None, data_pfr_id = Some (js ''BradTo00'')\<rparr>"

definition miss :: GuessData where
  "miss = \<lparr>data_correct = False,
           data_feedback = Some \<lparr>fb_era = Some Same, fb_teams_overlap = Some False\<rparr>,
           data_pfr_id = None\<rparr>"

definition revealed :: RevealData where
  "revealed = \<lparr>reveal_name = js ''Drake Maye'', reveal_pfr_id = Some (js ''MayeDr00''),
               reveal_position = Some QB\<rparr>"

definition fresh :: GameData where
  "fresh = \<lparr>session_id = js ''s2'', game_seasons = [], game_position = None\<rparr>"



chapter \<open>Properties\<close>

section \<open>Strings\<close>

lemma dropWhile_rest: "(\<forall>u\<in>set (dropWhile P g). P u) \<Longrightarrow> dropWhile P g = []"
proof (rule ccontr)
  assume a: "\<forall>u\<in>set (dropWhile P g). P u" and n: "dropWhile P g \<noteq> []"
  from n have "\<not> P (hd (dropWhile P g))" by (rule hd_dropWhile)
  moreover from n have "hd (dropWhile P g) \<in> set (dropWhile P g)" by simp
  ultimately show False using a by blast
qed

text \<open>\<open>!s.trim()\<close> holds exactly for the strings made of white space only.\<close>

lemma trim_blank_iff: "trim g = [] \<longleftrightarrow> (\<forall>u\<in>set g. isWhiteSpace u)"
proof
  assume "trim g = []"
  then have "\<forall>u\<in>set (dropWhile isWhiteSpace g). isWhiteSpace u"
    by (simp add: trim_def)
  then have "dropWhile isWhiteSpace g = []" by (rule dropWhile_rest)
  then show "\<forall>u\<in>set g. isWhiteSpace u" by simp
next
  assume "\<forall>u\<in>set g. isWhiteSpace u"
  then have h: "dropWhile isWhiteSpace g = []" by simp
  show "trim g = []" unfolding trim_def h by simp
qed

lemma startsWith_iff: "startsWith s p \<longleftrightarrow> (\<exists>b. s = p @ b)"
  by (induction s p rule: startsWith.induct) auto

text \<open>\<open>includes_js\<close> is the substring test.\<close>

lemma includes_js_iff: "includes_js s p \<longleftrightarrow> (\<exists>a b. s = a @ p @ b)"
proof (induction s)
  case Nil
  then show ?case by simp
next
  case (Cons x xs)
  show ?case
  proof
    assume "includes_js (x # xs) p"
    then consider "startsWith (x # xs) p" | "includes_js xs p" by auto
    then show "\<exists>a b. x # xs = a @ p @ b"
    proof cases
      case 1
      then obtain b where "x # xs = p @ b" by (auto simp add: startsWith_iff)
      then have "x # xs = [] @ p @ b" by simp
      then show ?thesis by blast
    next
      case 2
      with Cons.IH obtain a b where "xs = a @ p @ b" by blast
      then have "x # xs = (x # a) @ p @ b" by simp
      then show ?thesis by blast
    qed
  next
    assume "\<exists>a b. x # xs = a @ p @ b"
    then obtain a b where ab: "x # xs = a @ p @ b" by blast
    show "includes_js (x # xs) p"
    proof (cases a)
      case Nil
      with ab have "startsWith (x # xs) p" by (auto simp add: startsWith_iff)
      then show ?thesis by simp
    next
      case (Cons y ys)
      with ab have "xs = ys @ p @ b" by simp
      with Cons.IH have "includes_js xs p" by blast
      then show ?thesis by simp
    qed
  qed
qed

lemma truthy_Some: "truthy v \<Longrightarrow> \<exists>sid. v = Some sid \<and> sid \<noteq> [] \<and> orElse v d = sid"
  by (cases v) (simp_all add: truthy_def orElse_def)

lemma mentions_nonempty:
  "includes_js m (js ''Session not found'') \<Longrightarrow> orElse (Some m) dflt = m"
  by (cases m) (simp_all add: orElse_def js_def)

lemmas example_defs =
  playing_def lastChance_def exhausted_def wrong_def hit_def miss_def revealed_def fresh_def
  initial_def js_def trim_def isWhiteSpace_def truthy_def orElse_def MAX_GUESSES_def accepts_def

section \<open>The guards of \<open>submitGuess\<close>\<close>

lemma submitGuess_rejects: "\<not> accepts c \<Longrightarrow> submitGuess rg rr rl c s = (s, [])"
  by (auto simp add: submitGuess_def accepts_def)

lemma submitGuess_page_rejects: "\<not> accepts c \<Longrightarrow> submitGuess_page rg rr c s = (s, [])"
  by (auto simp add: submitGuess_page_def accepts_def)

lemma submitGuess_random_rejects: "\<not> accepts c \<Longrightarrow> submitGuess_random rg rr c s = (s, [])"
  by (auto simp add: submitGuess_random_def accepts_def)

section \<open>Invariants of a run\<close>

lemma run_invariant:
  assumes stp: "\<And>s e. I s \<Longrightarrow> I (fst (stp s e))"
  shows "I s \<Longrightarrow> I (fst (run stp s evs))"
proof (induction evs arbitrary: s)
  case Nil
  then show ?case by simp
next
  case (Cons e es)
  from Cons.prems have "I (fst (stp s e))" by (rule stp)
  then have "I (fst (run stp (fst (stp s e)) es))" by (rule Cons.IH)
  then show ?case by (simp add: split_beta Let_def)
qed

subsection \<open>The number of guesses\<close>

text \<open>
  The bound survives a handler whatever render it was created in, as long as that
  render respects the bound too.
\<close>

lemma guesses_loadGame:
  "length (guesses s) \<le> MAX_GUESSES \<Longrightarrow> length (guesses (fst (loadGame m r s))) \<le> MAX_GUESSES"
  by (simp add: loadGame_def Let_def split: reply.splits)

lemma guesses_revealAnswer:
  "length (guesses s) \<le> MAX_GUESSES \<Longrightarrow>
     length (guesses (fst (revealAnswer rr rl c s))) \<le> MAX_GUESSES"
  by (simp add: revealAnswer_def loadGame_def Let_def
      split: reply.splits option.splits prod.splits)

lemma guesses_submitGuess:
  "length (guesses c) \<le> MAX_GUESSES \<Longrightarrow> length (guesses s) \<le> MAX_GUESSES \<Longrightarrow>
     length (guesses (fst (submitGuess rg rr rl c s))) \<le> MAX_GUESSES"
  apply (simp add: submitGuess_def Let_def split: reply.splits option.splits prod.splits)
  apply (auto simp add: loadGame_def revealAnswer_def Let_def
      split: reply.splits option.splits prod.splits if_splits)
  done

lemma guesses_step:
  "length (guesses s) \<le> MAX_GUESSES \<Longrightarrow> length (guesses (fst (step s e))) \<le> MAX_GUESSES"
  by (cases e) (simp_all add: guesses_loadGame guesses_revealAnswer guesses_submitGuess)

lemma guesses_loadQB:
  "length (guesses s) \<le> MAX_GUESSES \<Longrightarrow> length (guesses (fst (loadQB m r s))) \<le> MAX_GUESSES"
  by (simp add: loadQB_def Let_def split: reply.splits)

lemma guesses_submitGuess_page:
  "length (guesses c) \<le> MAX_GUESSES \<Longrightarrow> length (guesses s) \<le> MAX_GUESSES \<Longrightarrow>
     length (guesses (fst (submitGuess_page rg rr c s))) \<le> MAX_GUESSES"
  apply (simp add: submitGuess_page_def Let_def split: reply.splits option.splits prod.splits)
  apply (auto simp add: revealAnswer_page_def Let_def
      split: reply.splits option.splits prod.splits if_splits)
  done

lemma guesses_step_page:
  "length (guesses s) \<le> MAX_GUESSES \<Longrightarrow> length (guesses (fst (step_page s e))) \<le> MAX_GUESSES"
  by (cases e) (simp_all add: guesses_loadQB guesses_submitGuess_page)

lemma guesses_loadQB_random:
  "length (guesses s) \<le> MAX_GUESSES \<Longrightarrow> length (guesses (fst (loadQB_random r s))) \<le> MAX_GUESSES"
  by (simp add: loadQB_random_def Let_def split: reply.splits)

lemma guesses_submitGuess_random:
  "length (guesses c) \<le> MAX_GUESSES \<Longrightarrow> length (guesses s) \<le> MAX_GUESSES \<Longrightarrow>
     length (guesses (fst (submitGuess_random rg rr c s))) \<le> MAX_GUESSES"
  apply (simp add: submitGuess_random_def Let_def split: reply.splits option.splits prod.splits)
  apply (auto simp add: revealAnswer_random_def Let_def
      split: reply.splits option.splits prod.splits if_splits)
  done

lemma guesses_step_random:
  "length (guesses s) \<le> MAX_GUESSES \<Longrightarrow> length (guesses (fst (step_random s e))) \<le> MAX_GUESSES"
  by (cases e) (simp_all add: guesses_loadQB_random guesses_submitGuess_random)

text \<open>
  C1. Whatever sequence of events the page handles, the list of guesses never holds
  more than \<open>MAX_GUESSES = 8\<close> entries, in each of the three versions of the page; and
  a \<open>submitGuess\<close> of a render that has eight guesses returns at once: it sends no
  request and writes nothing.
\<close>

theorem guesses_never_exceed_max:
  "length (guesses (fst (run step initial evs))) \<le> MAX_GUESSES
   \<and> length (guesses (fst (run step_page initial evs))) \<le> MAX_GUESSES
   \<and> length (guesses (fst (run step_random initial evs))) \<le> MAX_GUESSES
   \<and> (length (guesses c) = MAX_GUESSES \<longrightarrow>
        submitGuess rg rr rl c s = (s, []) \<and> submitGuess_page rg rr c s = (s, [])
        \<and> submitGuess_random rg rr c s = (s, []))"
proof -
  have i: "length (guesses initial) \<le> MAX_GUESSES" by (simp add: initial_def)
  have a: "length (guesses (fst (run step initial evs))) \<le> MAX_GUESSES"
    using guesses_step i by (rule run_invariant)
  have b: "length (guesses (fst (run step_page initial evs))) \<le> MAX_GUESSES"
    using guesses_step_page i by (rule run_invariant)
  have c: "length (guesses (fst (run step_random initial evs))) \<le> MAX_GUESSES"
    using guesses_step_random i by (rule run_invariant)
  have d: "length (guesses c) = MAX_GUESSES \<longrightarrow>
        submitGuess rg rr rl c s = (s, []) \<and> submitGuess_page rg rr c s = (s, [])
        \<and> submitGuess_random rg rr c s = (s, [])"
    by (simp add: submitGuess_rejects submitGuess_page_rejects submitGuess_random_rejects
        accepts_def)
  from a b c d show ?thesis by blast
qed

theorem guesses_never_exceed_max_witness:
  "length (guesses exhausted) = MAX_GUESSES
   \<and> submitGuess (Ok hit) (Ok revealed) (Ok fresh) exhausted exhausted = (exhausted, [])
   \<and> submitGuess_page (Ok hit) (Ok revealed) exhausted exhausted = (exhausted, [])
   \<and> submitGuess_random (Ok hit) (Ok revealed) exhausted exhausted = (exhausted, [])
   \<and> length (guesses (fst (run step initial
        [Load Daily (Ok fresh), SetGuess (js ''Tom Brady''),
         Submit (Ok miss) (Ok revealed) (Ok fresh)]))) \<le> MAX_GUESSES"
proof -
  have h: "length (guesses exhausted) = MAX_GUESSES"
    by (simp add: exhausted_def MAX_GUESSES_def)
  from h guesses_never_exceed_max
    [of "[Load Daily (Ok fresh), SetGuess (js ''Tom Brady''),
          Submit (Ok miss) (Ok revealed) (Ok fresh)]"
       exhausted "Ok hit" "Ok revealed" "Ok fresh" exhausted]
  show ?thesis by blast
qed


subsection \<open>The two flags\<close>

lemma flags_loadGame: "flagsExclusive s \<Longrightarrow> flagsExclusive (fst (loadGame m r s))"
  by (simp add: flagsExclusive_def loadGame_def Let_def split: reply.splits)

lemma flags_revealAnswer: "\<not> gameWon s \<Longrightarrow> flagsExclusive (fst (revealAnswer rr rl c s))"
  by (simp add: flagsExclusive_def revealAnswer_def loadGame_def Let_def
      split: reply.splits option.splits prod.splits)

lemma flags_submitGuess: "flagsExclusive s \<Longrightarrow> flagsExclusive (fst (submitGuess rg rr rl s s))"
  apply (simp add: submitGuess_def Let_def split: reply.splits option.splits prod.splits)
  apply (auto simp add: flagsExclusive_def loadGame_def revealAnswer_def Let_def
      split: reply.splits option.splits prod.splits if_splits)
  done

lemma flags_step: "flagsExclusive s \<Longrightarrow> flagsExclusive (fst (step s e))"
  by (cases e)
    (simp_all add: flags_loadGame flags_revealAnswer flags_submitGuess,
     simp_all add: flagsExclusive_def)

lemma flags_loadQB: "flagsExclusive s \<Longrightarrow> flagsExclusive (fst (loadQB m r s))"
  by (simp add: flagsExclusive_def loadQB_def Let_def split: reply.splits)

lemma flags_submitGuess_page:
  "flagsExclusive s \<Longrightarrow> flagsExclusive (fst (submitGuess_page rg rr s s))"
  apply (simp add: submitGuess_page_def Let_def split: reply.splits option.splits prod.splits)
  apply (auto simp add: flagsExclusive_def revealAnswer_page_def Let_def
      split: reply.splits option.splits prod.splits if_splits)
  done

lemma flags_step_page: "flagsExclusive s \<Longrightarrow> flagsExclusive (fst (step_page s e))"
  by (cases e)
    (simp_all add: flags_loadQB flags_submitGuess_page, simp_all add: flagsExclusive_def)

lemma flags_loadQB_random: "flagsExclusive s \<Longrightarrow> flagsExclusive (fst (loadQB_random r s))"
  by (simp add: flagsExclusive_def loadQB_random_def Let_def split: reply.splits)

lemma flags_submitGuess_random:
  "flagsExclusive s \<Longrightarrow> flagsExclusive (fst (submitGuess_random rg rr s s))"
  apply (simp add: submitGuess_random_def Let_def split: reply.splits option.splits prod.splits)
  apply (auto simp add: flagsExclusive_def revealAnswer_random_def Let_def
      split: reply.splits option.splits prod.splits if_splits)
  done

lemma flags_step_random: "flagsExclusive s \<Longrightarrow> flagsExclusive (fst (step_random s e))"
  by (cases e)
    (simp_all add: flags_loadQB_random flags_submitGuess_random, simp_all add: flagsExclusive_def)

text \<open>
  C9, as stated, fails when two handlers overlap. In the multi-position page: in the
  render \<open>playing\<close> both flags are false, so \<open>Give Up\<close> is enabled; it is pressed, and
  while the reveal is pending the typed name is submitted from the same render. The
  server answers the guess with \<open>correct = true\<close>, which sets \<open>gameWon\<close>, and then the
  reveal with the answer, whose setters run on that state and set \<open>gameLost\<close>. In
  \<open>app/page.tsx\<close>, which has no such button: with seven guesses recorded a wrong name
  is submitted, the text is changed and submitted again before the first reply; the
  first guess is answered wrong and its reveal succeeds, the second is answered
  correct.
\<close>

theorem overlapping_handlers_set_both_flags:
  "gameWon (fst (revealAnswer (Ok revealed) (Threw []) playing
       (fst (submitGuess (Ok hit) (Threw []) (Threw []) playing playing))))
   \<and> gameLost (fst (revealAnswer (Ok revealed) (Threw []) playing
       (fst (submitGuess (Ok hit) (Threw []) (Threw []) playing playing))))
   \<and> gameWon (fst (submitGuess_page (Ok hit) (Threw []) (lastChance\<lparr>guess := js ''Drake Maye''\<rparr>)
       (fst (submitGuess_page (Ok miss) (Ok revealed) lastChance
          (lastChance\<lparr>guess := js ''Drake Maye''\<rparr>)))))
   \<and> gameLost (fst (submitGuess_page (Ok hit) (Threw []) (lastChance\<lparr>guess := js ''Drake Maye''\<rparr>)
       (fst (submitGuess_page (Ok miss) (Ok revealed) lastChance
          (lastChance\<lparr>guess := js ''Drake Maye''\<rparr>)))))"
  by (simp add: submitGuess_def revealAnswer_def submitGuess_page_def revealAnswer_page_def
      example_defs Let_def)

text \<open>
  C9, amended. In every state reached by events that are each handled to the end, with
  the replies to their requests, before the next one, \<open>gameWon\<close> and \<open>gameLost\<close> are
  never both true, in each of the three versions of the page.
\<close>

theorem never_won_and_lost:
  "\<not> (gameWon (fst (run step initial evs)) \<and> gameLost (fst (run step initial evs)))
   \<and> \<not> (gameWon (fst (run step_page initial evs)) \<and> gameLost (fst (run step_page initial evs)))
   \<and> \<not> (gameWon (fst (run step_random initial evs))
          \<and> gameLost (fst (run step_random initial evs)))"
proof -
  have i: "flagsExclusive initial" by (simp add: flagsExclusive_def initial_def)
  have a: "flagsExclusive (fst (run step initial evs))"
    using flags_step i by (rule run_invariant)
  have b: "flagsExclusive (fst (run step_page initial evs))"
    using flags_step_page i by (rule run_invariant)
  have c: "flagsExclusive (fst (run step_random initial evs))"
    using flags_step_random i by (rule run_invariant)
  from a b c show ?thesis by (simp add: flagsExclusive_def)
qed

theorem never_won_and_lost_witness:
  "gameWon (fst (run step initial
      [Load Daily (Ok fresh), SetGuess (js ''Tom Brady''), GiveUp (NotOk 500 None) (Ok fresh),
       Submit (Ok hit) (Ok revealed) (Ok fresh), GiveUp (Ok revealed) (Ok fresh)]))
   \<and> \<not> gameLost (fst (run step initial
      [Load Daily (Ok fresh), SetGuess (js ''Tom Brady''), GiveUp (NotOk 500 None) (Ok fresh),
       Submit (Ok hit) (Ok revealed) (Ok fresh), GiveUp (Ok revealed) (Ok fresh)]))"
proof -
  have "gameWon (fst (run step initial
      [Load Daily (Ok fresh), SetGuess (js ''Tom Brady''), GiveUp (NotOk 500 None) (Ok fresh),
       Submit (Ok hit) (Ok revealed) (Ok fresh), GiveUp (Ok revealed) (Ok fresh)]))"
    by (simp add: submitGuess_def revealAnswer_def loadGame_def example_defs Let_def)
  with never_won_and_lost
    [of "[Load Daily (Ok fresh), SetGuess (js ''Tom Brady''), GiveUp (NotOk 500 None) (Ok fresh),
          Submit (Ok hit) (Ok revealed) (Ok fresh), GiveUp (Ok revealed) (Ok fresh)]"]
  show ?thesis by blast
qed

section \<open>Terminal states\<close>

lemma rejected_run:
  assumes rej: "\<And>g rg rr rl. stp (s\<lparr>guess := g\<rparr>) (Submit rg rr rl) = (s\<lparr>guess := g\<rparr>, [])"
    and set: "\<And>g g'. stp (s\<lparr>guess := g\<rparr>) (SetGuess g') = (s\<lparr>guess := g'\<rparr>, [])"
  shows "\<forall>e\<in>set evs. isGuessing e \<Longrightarrow>
           \<exists>g'. run stp (s\<lparr>guess := g\<rparr>) evs = (s\<lparr>guess := g'\<rparr>, [])"
proof (induction evs arbitrary: g)
  case Nil
  then show ?case by auto
next
  case (Cons e es)
  from Cons.prems have e: "isGuessing e" and es: "\<forall>e\<in>set es. isGuessing e" by simp_all
  from e obtain g1 where 1: "stp (s\<lparr>guess := g\<rparr>) e = (s\<lparr>guess := g1\<rparr>, [])"
    using rej set by (cases e) auto
  from Cons.IH [OF es] obtain g2 where
    "run stp (s\<lparr>guess := g1\<rparr>) es = (s\<lparr>guess := g2\<rparr>, [])"
    by blast
  with 1 show ?case by auto
qed

lemma terminal_run:
  assumes "gameWon s \<or> gameLost s" "\<forall>e\<in>set evs. isGuessing e"
  shows "\<exists>g. run step s evs = (s\<lparr>guess := g\<rparr>, [])"
    and "\<exists>g. run step_page s evs = (s\<lparr>guess := g\<rparr>, [])"
    and "\<exists>g. run step_random s evs = (s\<lparr>guess := g\<rparr>, [])"
proof -
  have n: "\<And>g. \<not> accepts (s\<lparr>guess := g\<rparr>)" using assms(1) by (auto simp add: accepts_def)
  have "\<exists>g. run step (s\<lparr>guess := guess s\<rparr>) evs = (s\<lparr>guess := g\<rparr>, [])"
    by (rule rejected_run) (simp_all add: submitGuess_rejects n assms(2))
  then show "\<exists>g. run step s evs = (s\<lparr>guess := g\<rparr>, [])" by simp
  have "\<exists>g. run step_page (s\<lparr>guess := guess s\<rparr>) evs = (s\<lparr>guess := g\<rparr>, [])"
    by (rule rejected_run) (simp_all add: submitGuess_page_rejects n assms(2))
  then show "\<exists>g. run step_page s evs = (s\<lparr>guess := g\<rparr>, [])" by simp
  have "\<exists>g. run step_random (s\<lparr>guess := guess s\<rparr>) evs = (s\<lparr>guess := g\<rparr>, [])"
    by (rule rejected_run) (simp_all add: submitGuess_random_rejects n assms(2))
  then show "\<exists>g. run step_random s evs = (s\<lparr>guess := g\<rparr>, [])" by simp
qed

text \<open>
  C4. In a render where the game is over (\<open>gameWon\<close> or \<open>gameLost\<close>), \<open>submitGuess\<close>
  returns at once: it sends no request and leaves every field of the state as it is,
  in each of the three versions of the page.
\<close>

theorem terminal_rejects_guess:
  "gameWon c \<or> gameLost c \<Longrightarrow>
     submitGuess rg rr rl c s = (s, []) \<and> submitGuess_page rg rr c s = (s, [])
     \<and> submitGuess_random rg rr c s = (s, [])"
proof -
  assume "gameWon c \<or> gameLost c"
  then have "\<not> accepts c" by (auto simp add: accepts_def)
  then show ?thesis
    by (simp add: submitGuess_rejects submitGuess_page_rejects submitGuess_random_rejects)
qed

theorem terminal_rejects_guess_witness:
  "(gameWon (playing\<lparr>gameLost := True\<rparr>) \<or> gameLost (playing\<lparr>gameLost := True\<rparr>))
   \<and> submitGuess (Ok hit) (Ok revealed) (Ok fresh) (playing\<lparr>gameLost := True\<rparr>)
        (playing\<lparr>gameLost := True\<rparr>) = (playing\<lparr>gameLost := True\<rparr>, [])
   \<and> submitGuess_page (Ok hit) (Ok revealed) (playing\<lparr>gameLost := True\<rparr>)
        (playing\<lparr>gameLost := True\<rparr>) = (playing\<lparr>gameLost := True\<rparr>, [])
   \<and> submitGuess_random (Ok hit) (Ok revealed) (playing\<lparr>gameLost := True\<rparr>)
        (playing\<lparr>gameLost := True\<rparr>) = (playing\<lparr>gameLost := True\<rparr>, [])"
proof -
  have h: "gameWon (playing\<lparr>gameLost := True\<rparr>) \<or> gameLost (playing\<lparr>gameLost := True\<rparr>)"
    by simp
  from h terminal_rejects_guess [OF h, of "Ok hit" "Ok revealed" "Ok fresh" "playing\<lparr>gameLost := True\<rparr>"]
  show ?thesis by blast
qed

text \<open>
  C10. When the typed text is empty or consists of white space only, \<open>submitGuess\<close>
  returns at once: it sends no request and leaves every field of the state as it is,
  in each of the three versions of the page.
\<close>

theorem blank_guess_ignored:
  "\<forall>u\<in>set (guess c). isWhiteSpace u \<Longrightarrow>
     submitGuess rg rr rl c s = (s, []) \<and> submitGuess_page rg rr c s = (s, [])
     \<and> submitGuess_random rg rr c s = (s, [])"
  by (simp add: submitGuess_rejects submitGuess_page_rejects submitGuess_random_rejects
      accepts_def trim_blank_iff)

theorem blank_guess_ignored_witness:
  "guess (playing\<lparr>guess := [32, 9, 160, 8195]\<rparr>) = [32, 9, 160, 8195]
   \<and> isWhiteSpace 32 \<and> isWhiteSpace 9 \<and> isWhiteSpace 160 \<and> isWhiteSpace 8195
   \<and> submitGuess (Ok hit) (Ok revealed) (Ok fresh) (playing\<lparr>guess := [32, 9, 160, 8195]\<rparr>)
        (playing\<lparr>guess := [32, 9, 160, 8195]\<rparr>) = (playing\<lparr>guess := [32, 9, 160, 8195]\<rparr>, [])
   \<and> submitGuess_page (Ok hit) (Ok revealed) (playing\<lparr>guess := []\<rparr>) (playing\<lparr>guess := []\<rparr>)
        = (playing\<lparr>guess := []\<rparr>, [])"
proof -
  have h: "\<forall>u\<in>set (guess (playing\<lparr>guess := [32, 9, 160, 8195]\<rparr>)). isWhiteSpace u"
    by (simp add: isWhiteSpace_def)
  have e: "\<forall>u\<in>set (guess (playing\<lparr>guess := []\<rparr>)). isWhiteSpace u"
    by simp
  have w: "isWhiteSpace 32 \<and> isWhiteSpace 9 \<and> isWhiteSpace 160 \<and> isWhiteSpace 8195"
    by (simp add: isWhiteSpace_def)
  from w blank_guess_ignored [OF h, of "Ok hit" "Ok revealed" "Ok fresh" "playing\<lparr>guess := [32, 9, 160, 8195]\<rparr>"]
    blank_guess_ignored [OF e, of "Ok hit" "Ok revealed" "Ok fresh" "playing\<lparr>guess := []\<rparr>"]
  show ?thesis by simp
qed


section \<open>Winning and losing\<close>

lemma win_multi:
  assumes "accepts s" "data_correct d"
  shows "\<exists>s' g. fst (submitGuess (Ok d) rr rl s s) = s'
           \<and> guesses s' = guesses s @ [g] \<and> name g = guess s \<and> correct g \<and> gameWon s'"
proof -
  from assms(1) obtain sid where "sessionId s = Some sid" "orElse (sessionId s) [] = sid"
    using truthy_Some [of "sessionId s" "[]"] by (auto simp add: accepts_def)
  with assms show ?thesis
    by (simp add: submitGuess_def accepts_def Let_def)
qed

lemma win_page:
  assumes "accepts s" "data_correct d"
  shows "\<exists>s' g. fst (submitGuess_page (Ok d) rr s s) = s'
           \<and> guesses s' = guesses s @ [g] \<and> name g = guess s \<and> correct g \<and> gameWon s'"
proof -
  from assms(1) obtain sid where "sessionId s = Some sid" "orElse (sessionId s) [] = sid"
    using truthy_Some [of "sessionId s" "[]"] by (auto simp add: accepts_def)
  with assms show ?thesis
    by (simp add: submitGuess_page_def accepts_def Let_def)
qed

lemma win_random:
  assumes "accepts s" "data_correct d"
  shows "\<exists>s' g. fst (submitGuess_random (Ok d) rr s s) = s'
           \<and> guesses s' = guesses s @ [g] \<and> name g = guess s \<and> correct g \<and> gameWon s'"
proof -
  from assms(1) obtain sid where "sessionId s = Some sid" "orElse (sessionId s) [] = sid"
    using truthy_Some [of "sessionId s" "[]"] by (auto simp add: accepts_def)
  with assms show ?thesis
    by (simp add: submitGuess_random_def accepts_def Let_def)
qed

text \<open>
  C2. When \<open>submitGuess\<close> passes its guards and the reply to \<open>/guess\<close> is successful
  with \<open>correct = true\<close>, the new state \<open>s'\<close> has the guess appended to the list and
  \<open>gameWon\<close> set. From then on every \<open>submitGuess\<close> is rejected: a call in the render
  \<open>s'\<close> returns at once whatever the server would reply, and any sequence of typing and
  submitting sends no request and changes nothing but the typed text. This holds in
  each of the three versions of the page.
\<close>

theorem correct_guess_wins:
  assumes "accepts s" "data_correct d" "\<forall>e\<in>set evs. isGuessing e"
  shows "(\<exists>s' g. fst (submitGuess (Ok d) rr rl s s) = s'
            \<and> guesses s' = guesses s @ [g] \<and> name g = guess s \<and> correct g \<and> gameWon s'
            \<and> (\<forall>rg' rr' rl'. submitGuess rg' rr' rl' s' s' = (s', []))
            \<and> (\<exists>t. run step s' evs = (s'\<lparr>guess := t\<rparr>, [])))
       \<and> (\<exists>s' g. fst (submitGuess_page (Ok d) rr s s) = s'
            \<and> guesses s' = guesses s @ [g] \<and> name g = guess s \<and> correct g \<and> gameWon s'
            \<and> (\<forall>rg' rr'. submitGuess_page rg' rr' s' s' = (s', []))
            \<and> (\<exists>t. run step_page s' evs = (s'\<lparr>guess := t\<rparr>, [])))
       \<and> (\<exists>s' g. fst (submitGuess_random (Ok d) rr s s) = s'
            \<and> guesses s' = guesses s @ [g] \<and> name g = guess s \<and> correct g \<and> gameWon s'
            \<and> (\<forall>rg' rr'. submitGuess_random rg' rr' s' s' = (s', []))
            \<and> (\<exists>t. run step_random s' evs = (s'\<lparr>guess := t\<rparr>, [])))"
proof (intro conjI)
  from win_multi [OF assms(1,2), of rr rl] obtain s' g where
    w: "fst (submitGuess (Ok d) rr rl s s) = s'" "guesses s' = guesses s @ [g]"
       "name g = guess s" "correct g" "gameWon s'"
    by auto
  from w(5) have n: "\<not> accepts s'" by (simp add: accepts_def)
  from w(5) have "gameWon s' \<or> gameLost s'" by simp
  from terminal_run(1) [OF this assms(3)] n w
  show "\<exists>s' g. fst (submitGuess (Ok d) rr rl s s) = s'
            \<and> guesses s' = guesses s @ [g] \<and> name g = guess s \<and> correct g \<and> gameWon s'
            \<and> (\<forall>rg' rr' rl'. submitGuess rg' rr' rl' s' s' = (s', []))
            \<and> (\<exists>t. run step s' evs = (s'\<lparr>guess := t\<rparr>, []))"
    by (simp add: submitGuess_rejects)
next
  from win_page [OF assms(1,2), of rr] obtain s' g where
    w: "fst (submitGuess_page (Ok d) rr s s) = s'" "guesses s' = guesses s @ [g]"
       "name g = guess s" "correct g" "gameWon s'"
    by auto
  from w(5) have n: "\<not> accepts s'" by (simp add: accepts_def)
  from w(5) have "gameWon s' \<or> gameLost s'" by simp
  from terminal_run(2) [OF this assms(3)] n w
  show "\<exists>s' g. fst (submitGuess_page (Ok d) rr s s) = s'
            \<and> guesses s' = guesses s @ [g] \<and> name g = guess s \<and> correct g \<and> gameWon s'
            \<and> (\<forall>rg' rr'. submitGuess_page rg' rr' s' s' = (s', []))
            \<and> (\<exists>t. run step_page s' evs = (s'\<lparr>guess := t\<rparr>, []))"
    by (simp add: submitGuess_page_rejects)
next
  from win_random [OF assms(1,2), of rr] obtain s' g where
    w: "fst (submitGuess_random (Ok d) rr s s) = s'" "guesses s' = guesses s @ [g]"
       "name g = guess s" "correct g" "gameWon s'"
    by auto
  from w(5) have n: "\<not> accepts s'" by (simp add: accepts_def)
  from w(5) have "gameWon s' \<or> gameLost s'" by simp
  from terminal_run(3) [OF this assms(3)] n w
  show "\<exists>s' g. fst (submitGuess_random (Ok d) rr s s) = s'
            \<and> guesses s' = guesses s @ [g] \<and> name g = guess s \<and> correct g \<and> gameWon s'
            \<and> (\<forall>rg' rr'. submitGuess_random rg' rr' s' s' = (s', []))
            \<and> (\<exists>t. run step_random s' evs = (s'\<lparr>guess := t\<rparr>, []))"
    by (simp add: submitGuess_random_rejects)
qed

theorem correct_guess_wins_witness:
  "accepts playing \<and> data_correct hit
   \<and> isGuessing (SetGuess (js ''Eli Manning''))
   \<and> isGuessing (Submit (Ok miss) (Ok revealed) (Ok fresh))
   \<and> gameWon (fst (submitGuess (Ok hit) (Ok revealed) (Ok fresh) playing playing))
   \<and> snd (run step (fst (submitGuess (Ok hit) (Ok revealed) (Ok fresh) playing playing))
        [SetGuess (js ''Eli Manning''), Submit (Ok miss) (Ok revealed) (Ok fresh)]) = []"
proof -
  have a: "accepts playing" by (simp add: example_defs)
  have b: "data_correct hit" by (simp add: hit_def)
  have c: "\<forall>e\<in>set [SetGuess (js ''Eli Manning''), Submit (Ok miss) (Ok revealed) (Ok fresh)].
             isGuessing e"
    by simp
  from a b correct_guess_wins [OF a b c, of "Ok revealed" "Ok fresh"]
  show ?thesis by auto
qed

lemma lose_multi:
  assumes "accepts s" "Suc (length (guesses s)) = MAX_GUESSES" "\<not> data_correct d"
  shows "\<exists>sid g. sessionId s = Some sid \<and> name g = guess s \<and> \<not> correct g
           \<and> submitGuess (Ok d) rr rl s s =
               (let (s2, reqs) = revealAnswer rr rl s (s\<lparr>guesses := guesses s @ [g]\<rparr>)
                in (s2\<lparr>guess := [], suggestions := [], showSuggestions := False\<rparr>,
                    POST_guess (guess s) sid # reqs))
           \<and> (\<exists>s'. submitGuess (Ok d) (Ok a) rl s s
                     = (s', [POST_guess (guess s) sid, POST_reveal sid])
                 \<and> guesses s' = guesses s @ [g] \<and> answer s' = Some (reveal_name a)
                 \<and> gameLost s' \<and> \<not> gameWon s')"
proof -
  from assms(1) obtain sid where
    "sessionId s = Some sid" "orElse (sessionId s) [] = sid" "sid \<noteq> []"
    using truthy_Some [of "sessionId s" "[]"] by (auto simp add: accepts_def)
  with assms show ?thesis
    by (simp add: submitGuess_def revealAnswer_def accepts_def Let_def)
qed

lemma lose_page:
  assumes "accepts s" "Suc (length (guesses s)) = MAX_GUESSES" "\<not> data_correct d"
  shows "\<exists>sid g. sessionId s = Some sid \<and> name g = guess s \<and> \<not> correct g
           \<and> submitGuess_page (Ok d) rr s s =
               (let (s2, reqs) = revealAnswer_page rr s (s\<lparr>guesses := guesses s @ [g]\<rparr>)
                in (s2\<lparr>guess := [], suggestions := [], showSuggestions := False\<rparr>,
                    POST_guess (guess s) sid # reqs))
           \<and> (\<exists>s'. submitGuess_page (Ok d) (Ok a) s s
                     = (s', [POST_guess (guess s) sid, POST_reveal sid])
                 \<and> guesses s' = guesses s @ [g] \<and> answer s' = Some (reveal_name a)
                 \<and> gameLost s' \<and> \<not> gameWon s')"
proof -
  from assms(1) obtain sid where
    "sessionId s = Some sid" "orElse (sessionId s) [] = sid" "sid \<noteq> []"
    using truthy_Some [of "sessionId s" "[]"] by (auto simp add: accepts_def)
  with assms show ?thesis
    by (simp add: submitGuess_page_def revealAnswer_page_def accepts_def Let_def)
qed

lemma lose_random:
  assumes "accepts s" "Suc (length (guesses s)) = MAX_GUESSES" "\<not> data_correct d"
  shows "\<exists>sid g. sessionId s = Some sid \<and> name g = guess s \<and> \<not> correct g
           \<and> submitGuess_random (Ok d) rr s s =
               (let (s2, reqs) = revealAnswer_random rr s (s\<lparr>guesses := guesses s @ [g]\<rparr>)
                in (s2\<lparr>guess := [], suggestions := [], showSuggestions := False\<rparr>,
                    POST_guess (guess s) sid # reqs))
           \<and> (\<exists>s'. submitGuess_random (Ok d) (Ok a) s s
                     = (s', [POST_guess (guess s) sid, POST_reveal sid])
                 \<and> guesses s' = guesses s @ [g] \<and> answer s' = Some (reveal_name a)
                 \<and> gameLost s' \<and> \<not> gameWon s')"
proof -
  from assms(1) obtain sid where
    "sessionId s = Some sid" "orElse (sessionId s) [] = sid" "sid \<noteq> []"
    using truthy_Some [of "sessionId s" "[]"] by (auto simp add: accepts_def)
  with assms show ?thesis
    by (simp add: submitGuess_random_def revealAnswer_random_def accepts_def Let_def)
qed

text \<open>
  C3. When \<open>submitGuess\<close> passes its guards with seven guesses recorded and the reply
  to \<open>/guess\<close> is successful with \<open>correct\<close> false, the handler records the guess \<open>g\<close>,
  the eighth, and calls \<open>revealAnswer\<close>, whose request follows the guess; when the
  reply to \<open>/reveal\<close> is successful, the new state holds the eight guesses, has
  \<open>answer\<close> set to the name the reply carries and \<open>gameLost\<close> set, and \<open>gameWon\<close> is
  not set. This holds in each of the three versions of the page.
\<close>

theorem last_wrong_guess_reveals:
  assumes "accepts s" "Suc (length (guesses s)) = MAX_GUESSES" "\<not> data_correct d"
  shows "(\<exists>sid g. sessionId s = Some sid \<and> name g = guess s \<and> \<not> correct g
           \<and> submitGuess (Ok d) rr rl s s =
               (let (s2, reqs) = revealAnswer rr rl s (s\<lparr>guesses := guesses s @ [g]\<rparr>)
                in (s2\<lparr>guess := [], suggestions := [], showSuggestions := False\<rparr>,
                    POST_guess (guess s) sid # reqs))
           \<and> (\<exists>s'. submitGuess (Ok d) (Ok a) rl s s
                     = (s', [POST_guess (guess s) sid, POST_reveal sid])
                 \<and> guesses s' = guesses s @ [g] \<and> answer s' = Some (reveal_name a)
                 \<and> gameLost s' \<and> \<not> gameWon s'))
       \<and> (\<exists>sid g. sessionId s = Some sid \<and> name g = guess s \<and> \<not> correct g
           \<and> submitGuess_page (Ok d) rr s s =
               (let (s2, reqs) = revealAnswer_page rr s (s\<lparr>guesses := guesses s @ [g]\<rparr>)
                in (s2\<lparr>guess := [], suggestions := [], showSuggestions := False\<rparr>,
                    POST_guess (guess s) sid # reqs))
           \<and> (\<exists>s'. submitGuess_page (Ok d) (Ok a) s s
                     = (s', [POST_guess (guess s) sid, POST_reveal sid])
                 \<and> guesses s' = guesses s @ [g] \<and> answer s' = Some (reveal_name a)
                 \<and> gameLost s' \<and> \<not> gameWon s'))
       \<and> (\<exists>sid g. sessionId s = Some sid \<and> name g = guess s \<and> \<not> correct g
           \<and> submitGuess_random (Ok d) rr s s =
               (let (s2, reqs) = revealAnswer_random rr s (s\<lparr>guesses := guesses s @ [g]\<rparr>)
                in (s2\<lparr>guess := [], suggestions := [], showSuggestions := False\<rparr>,
                    POST_guess (guess s) sid # reqs))
           \<and> (\<exists>s'. submitGuess_random (Ok d) (Ok a) s s
                     = (s', [POST_guess (guess s) sid, POST_reveal sid])
                 \<and> guesses s' = guesses s @ [g] \<and> answer s' = Some (reveal_name a)
                 \<and> gameLost s' \<and> \<not> gameWon s'))"
  using lose_multi [OF assms] lose_page [OF assms] lose_random [OF assms] by blast

theorem last_wrong_guess_reveals_witness:
  "accepts lastChance \<and> Suc (length (guesses lastChance)) = MAX_GUESSES \<and> \<not> data_correct miss
   \<and> snd (submitGuess (Ok miss) (Ok revealed) (Ok fresh) lastChance lastChance)
       = [POST_guess (js ''Tom Brady'') (js ''s1''), POST_reveal (js ''s1'')]
   \<and> gameLost (fst (submitGuess (Ok miss) (Ok revealed) (Ok fresh) lastChance lastChance))
   \<and> answer (fst (submitGuess (Ok miss) (Ok revealed) (Ok fresh) lastChance lastChance))
       = Some (js ''Drake Maye'')"
proof -
  have a: "accepts lastChance" by (simp add: example_defs)
  have b: "Suc (length (guesses lastChance)) = MAX_GUESSES" by (simp add: example_defs)
  have c: "\<not> data_correct miss" by (simp add: miss_def)
  have g: "guess lastChance = js ''Tom Brady''" "sessionId lastChance = Some (js ''s1'')"
    "reveal_name revealed = js ''Drake Maye''"
    by (simp_all add: lastChance_def playing_def revealed_def)
  from last_wrong_guess_reveals [OF a b c, of "Ok revealed" "Ok fresh" revealed]
  obtain sid s' where
    "sessionId lastChance = Some sid"
    "submitGuess (Ok miss) (Ok revealed) (Ok fresh) lastChance lastChance
       = (s', [POST_guess (guess lastChance) sid, POST_reveal sid])"
    "answer s' = Some (reveal_name revealed)" "gameLost s'"
    by blast
  with a b c g show ?thesis by simp
qed



section \<open>The colour shown for a guess\<close>

text \<open>
  C5. Every recorded guess is painted in exactly one of four colours, by the priority
  \<open>correct\<close>, then \<open>teams_overlap\<close>, then \<open>era = "same"\<close>: green exactly when \<open>correct\<close>
  is true; orange exactly when \<open>correct\<close> is false and \<open>teams_overlap\<close> is true; yellow
  exactly when \<open>correct\<close> is false, \<open>teams_overlap\<close> is not true (false or undefined)
  and \<open>era\<close> is \<open>same\<close>; the neutral colour otherwise. This holds for the class string
  of \<open>app/page.tsx\<close> and unnamed/part_001 and for the one of the multi-position page.
\<close>

theorem feedback_colour:
  "(\<exists>k. colour_page (bgClass_page g) = Some k) \<and> (\<exists>k. colour_multi (bgClass g) = Some k)
   \<and> (colour_page (bgClass_page g) = Some Green \<longleftrightarrow> correct g)
   \<and> (colour_page (bgClass_page g) = Some Orange \<longleftrightarrow> \<not> correct g \<and> teams_overlap g = Some True)
   \<and> (colour_page (bgClass_page g) = Some Yellow \<longleftrightarrow>
        \<not> correct g \<and> teams_overlap g \<noteq> Some True \<and> era g = Some Same)
   \<and> (colour_page (bgClass_page g) = Some Neutral \<longleftrightarrow>
        \<not> correct g \<and> teams_overlap g \<noteq> Some True \<and> era g \<noteq> Some Same)
   \<and> (colour_multi (bgClass g) = Some Green \<longleftrightarrow> correct g)
   \<and> (colour_multi (bgClass g) = Some Orange \<longleftrightarrow> \<not> correct g \<and> teams_overlap g = Some True)
   \<and> (colour_multi (bgClass g) = Some Yellow \<longleftrightarrow>
        \<not> correct g \<and> teams_overlap g \<noteq> Some True \<and> era g = Some Same)
   \<and> (colour_multi (bgClass g) = Some Neutral \<longleftrightarrow>
        \<not> correct g \<and> teams_overlap g \<noteq> Some True \<and> era g \<noteq> Some Same)"
  by (simp add: colour_page_def bgClass_page_def colour_multi_def bgClass_def)

theorem feedback_colour_witness:
  "colour_page (bgClass_page wrong) = Some Neutral
   \<and> colour_multi (bgClass (wrong\<lparr>teams_overlap := None, era := Some Same\<rparr>)) = Some Yellow
   \<and> colour_page (bgClass_page (wrong\<lparr>teams_overlap := Some True, era := Some Same\<rparr>)) = Some Orange
   \<and> colour_multi (bgClass (wrong\<lparr>correct := True, teams_overlap := Some True\<rparr>)) = Some Green"
  using feedback_colour [of wrong]
    feedback_colour [of "wrong\<lparr>teams_overlap := None, era := Some Same\<rparr>"]
    feedback_colour [of "wrong\<lparr>teams_overlap := Some True, era := Some Same\<rparr>"]
    feedback_colour [of "wrong\<lparr>correct := True, teams_overlap := Some True\<rparr>"]
  by (simp add: wrong_def)

section \<open>An expired session\<close>

text \<open>
  C6, as stated, fails in \<open>app/page.tsx\<close>: a reply to \<open>/guess\<close> with status 404 and
  detail \<open>Session not found\<close> only sets \<open>error\<close> to the detail, which makes the page
  render its error card; and the same reply to \<open>/reveal\<close> sets \<open>error\<close> to
  \<open>Failed to reveal answer\<close>. No game is loaded.
\<close>

theorem expired_session_shown_as_error:
  "submitGuess_page (NotOk 404 (Some (js ''Session not found''))) (Threw []) playing playing
     = (playing\<lparr>error := Some (js ''Session not found'')\<rparr>,
        [POST_guess (js ''Tom Brady'') (js ''s1'')])
   \<and> revealAnswer_page (NotOk 404 (Some (js ''Session not found''))) playing playing
     = (playing\<lparr>error := Some (js ''Failed to reveal answer'')\<rparr>, [POST_reveal (js ''s1'')])"
  by (simp add: submitGuess_page_def revealAnswer_page_def example_defs)

text \<open>
  C6, amended. Let the detail \<open>m\<close> of a reply with status 404 mention
  \<open>Session not found\<close>. In the multi-position page (unnamed/part_000), a \<open>submitGuess\<close>
  that passed its guards and a \<open>revealAnswer\<close> with a session then call
  \<open>loadGame(gameMode)\<close>, which asks for a game of the current mode (\<open>/daily_qb\<close> or
  \<open>/random_qb\<close>), and set \<open>error\<close> to the notice that a new game has been loaded; when
  that load succeeds the state holds the new session, the same mode, no guesses and
  neither flag. In \<open>app/page.tsx\<close> and unnamed/part_001 there is no such case:
  \<open>submitGuess\<close> sets \<open>error\<close> to the detail, \<open>revealAnswer\<close> sets it to
  \<open>Failed to reveal answer\<close>, and neither loads a game.
\<close>

theorem expired_session_reloads:
  assumes "includes_js m (js ''Session not found'')"
  shows "(accepts s \<longrightarrow>
           (\<exists>sid. sessionId s = Some sid
              \<and> submitGuess (NotOk 404 (Some m)) rr rl s s =
                  (let (s1, reqs) = loadGame (gameMode s) rl s
                   in (s1\<lparr>error := Some (js ''Your session expired. A new game has been loaded!'')\<rparr>,
                       POST_guess (guess s) sid # reqs))
              \<and> submitGuess_page (NotOk 404 (Some m)) rr s s
                  = (s\<lparr>error := Some m\<rparr>, [POST_guess (guess s) sid])
              \<and> submitGuess_random (NotOk 404 (Some m)) rr s s
                  = (s\<lparr>error := Some m\<rparr>, [POST_guess (guess s) sid])))
       \<and> (truthy (sessionId s) \<longrightarrow>
           (\<exists>sid. sessionId s = Some sid
              \<and> revealAnswer (NotOk 404 (Some m)) rl s s =
                  (let (s1, reqs) = loadGame (gameMode s) rl s
                   in (s1\<lparr>error := Some (js ''Your session expired. A new game has been loaded!'')\<rparr>,
                       POST_reveal sid # reqs))
              \<and> revealAnswer_page (NotOk 404 (Some m)) s s
                  = (s\<lparr>error := Some (js ''Failed to reveal answer'')\<rparr>, [POST_reveal sid])
              \<and> revealAnswer_random (NotOk 404 (Some m)) s s
                  = (s\<lparr>error := Some (js ''Failed to reveal answer'')\<rparr>, [POST_reveal sid])))
       \<and> snd (loadGame (gameMode s) rl s)
            = [if gameMode s = Daily then GET_daily_qb else GET_random_qb]
       \<and> (\<forall>data. sessionId (fst (loadGame (gameMode s) (Ok data) s)) = Some (session_id data)
              \<and> gameMode (fst (loadGame (gameMode s) (Ok data) s)) = gameMode s
              \<and> guesses (fst (loadGame (gameMode s) (Ok data) s)) = []
              \<and> \<not> gameWon (fst (loadGame (gameMode s) (Ok data) s))
              \<and> \<not> gameLost (fst (loadGame (gameMode s) (Ok data) s)))"
proof (intro conjI impI allI)
  assume a: "accepts s"
  then obtain sid where sid: "sessionId s = Some sid" "orElse (sessionId s) [] = sid" "sid \<noteq> []"
    using truthy_Some [of "sessionId s" "[]"] by (auto simp add: accepts_def)
  have m: "\<And>dflt. orElse (Some m) dflt = m" using assms by (rule mentions_nonempty)
  from a sid assms
  show "\<exists>sid. sessionId s = Some sid
              \<and> submitGuess (NotOk 404 (Some m)) rr rl s s =
                  (let (s1, reqs) = loadGame (gameMode s) rl s
                   in (s1\<lparr>error := Some (js ''Your session expired. A new game has been loaded!'')\<rparr>,
                       POST_guess (guess s) sid # reqs))
              \<and> submitGuess_page (NotOk 404 (Some m)) rr s s
                  = (s\<lparr>error := Some m\<rparr>, [POST_guess (guess s) sid])
              \<and> submitGuess_random (NotOk 404 (Some m)) rr s s
                  = (s\<lparr>error := Some m\<rparr>, [POST_guess (guess s) sid])"
    by (simp add: submitGuess_def submitGuess_page_def submitGuess_random_def accepts_def Let_def m)
next
  assume "truthy (sessionId s)"
  then obtain sid where sid: "sessionId s = Some sid" "sid \<noteq> []"
    using truthy_Some [of "sessionId s" "[]"] by auto
  have m: "\<And>dflt. orElse (Some m) dflt = m" using assms by (rule mentions_nonempty)
  from sid assms
  show "\<exists>sid. sessionId s = Some sid
              \<and> revealAnswer (NotOk 404 (Some m)) rl s s =
                  (let (s1, reqs) = loadGame (gameMode s) rl s
                   in (s1\<lparr>error := Some (js ''Your session expired. A new game has been loaded!'')\<rparr>,
                       POST_reveal sid # reqs))
              \<and> revealAnswer_page (NotOk 404 (Some m)) s s
                  = (s\<lparr>error := Some (js ''Failed to reveal answer'')\<rparr>, [POST_reveal sid])
              \<and> revealAnswer_random (NotOk 404 (Some m)) s s
                  = (s\<lparr>error := Some (js ''Failed to reveal answer'')\<rparr>, [POST_reveal sid])"
    by (simp add: revealAnswer_def revealAnswer_page_def revealAnswer_random_def Let_def m)
qed (simp_all add: loadGame_def Let_def)

theorem expired_session_reloads_witness:
  "includes_js (js ''404: Session not found or expired'') (js ''Session not found'')
   \<and> accepts playing \<and> truthy (sessionId playing)
   \<and> snd (submitGuess (NotOk 404 (Some (js ''404: Session not found or expired'')))
        (Ok revealed) (Ok fresh) playing playing)
       = [POST_guess (js ''Tom Brady'') (js ''s1''), GET_daily_qb]
   \<and> sessionId (fst (submitGuess (NotOk 404 (Some (js ''404: Session not found or expired'')))
        (Ok revealed) (Ok fresh) playing playing)) = Some (js ''s2'')
   \<and> snd (revealAnswer (NotOk 404 (Some (js ''404: Session not found or expired'')))
        (Ok fresh) playing playing)
       = [POST_reveal (js ''s1''), GET_daily_qb]"
proof -
  have i: "includes_js (js ''404: Session not found or expired'') (js ''Session not found'')"
    by (simp add: js_def)
  have a: "accepts playing" by (simp add: example_defs)
  have t: "truthy (sessionId playing)" by (simp add: example_defs)
  have g: "guess playing = js ''Tom Brady''" "sessionId playing = Some (js ''s1'')"
    "gameMode playing = Daily"
    by (simp_all add: playing_def initial_def)
  have l: "snd (loadGame Daily (Ok fresh) playing) = [GET_daily_qb]"
    "sessionId (fst (loadGame Daily (Ok fresh) playing)) = Some (js ''s2'')"
    by (simp_all add: loadGame_def fresh_def Let_def)
  from expired_session_reloads [OF i, of playing "Ok revealed" "Ok fresh"] a t
  have "\<exists>sid. sessionId playing = Some sid
      \<and> submitGuess (NotOk 404 (Some (js ''404: Session not found or expired'')))
           (Ok revealed) (Ok fresh) playing playing =
         (let (s1, reqs) = loadGame (gameMode playing) (Ok fresh) playing
          in (s1\<lparr>error := Some (js ''Your session expired. A new game has been loaded!'')\<rparr>,
              POST_guess (guess playing) sid # reqs))"
    and "\<exists>sid. sessionId playing = Some sid
      \<and> revealAnswer (NotOk 404 (Some (js ''404: Session not found or expired'')))
           (Ok fresh) playing playing =
         (let (s1, reqs) = loadGame (gameMode playing) (Ok fresh) playing
          in (s1\<lparr>error := Some (js ''Your session expired. A new game has been loaded!'')\<rparr>,
              POST_reveal sid # reqs))"
    by blast+
  with i a t show ?thesis
    by (simp add: g l split_beta)
qed



section \<open>Debouncing of the autocomplete request\<close>

text \<open>
  C7, as stated, fails: not every change of the text is followed by a request. A
  change to a blank text sets no timeout and sends nothing, however long the client
  waits; and a change to a text with an unpaired surrogate sets the timeout, but when it
  runs \<open>encodeURIComponent\<close> throws and nothing is sent. Both hold in \<open>app/page.tsx\<close>
  (whose effect unnamed/part_001 shares) and in the multi-position page.
\<close>

theorem some_changes_send_no_request:
  "snd (changeGuess_page 0 (js '' '') (playing\<lparr>guess := []\<rparr>, None)) = None
   \<and> snd (tick_page 1000 (Ok None) (changeGuess_page 0 (js '' '') (playing\<lparr>guess := []\<rparr>, None)))
       = []
   \<and> snd (changeGuess 0 (js '' '') (playing\<lparr>guess := []\<rparr>, None)) = None
   \<and> snd (tick 1000 (Ok None) (changeGuess 0 (js '' '') (playing\<lparr>guess := []\<rparr>, None))) = []
   \<and> trim [55357] = [55357]
   \<and> snd (changeGuess_page 0 [55357] (playing\<lparr>guess := []\<rparr>, None)) = Some (250, [55357])
   \<and> snd (tick_page 1000 (Ok None) (changeGuess_page 0 [55357] (playing\<lparr>guess := []\<rparr>, None)))
       = []
   \<and> snd (changeGuess 0 [55357] (playing\<lparr>guess := []\<rparr>, None)) = Some (200, [55357])
   \<and> snd (tick 1000 (Ok None) (changeGuess 0 [55357] (playing\<lparr>guess := []\<rparr>, None))) = []"
  by (simp add: tick_page_def changeGuess_page_def autocompleteEffect_page_def
      tick_def changeGuess_def autocompleteEffect_def js_def trim_def isWhiteSpace_def)

text \<open>
  C7, amended. The request for suggestions is debounced at about 200 milliseconds: the
  delay is 200 in the multi-position page (unnamed/part_000) and 250 in \<open>app/page.tsx\<close>
  and unnamed/part_001. When the text changes at time \<open>now\<close> to a value \<open>g\<close> that is not
  blank, any pending timeout is dropped and one is set for \<open>now + delay\<close>. Until the
  clock reaches it no request is sent; when it does, the request for \<open>g\<close> is sent if
  \<open>encodeURIComponent(g)\<close> returns and nothing is sent if it throws, and in both cases
  nothing stays pending. A further change to \<open>g'\<close> at time \<open>t\<close> replaces the pending
  timeout by one for \<open>t + delay\<close>, or by none when \<open>g'\<close> is blank, so that nothing is
  sent before \<open>t + delay\<close>: the request for \<open>g\<close> is cancelled.
\<close>

theorem autocomplete_debounce:
  assumes "g \<noteq> guess s" "trim g \<noteq> []"
  shows "changeGuess now g (s, tm) = (s\<lparr>guess := g\<rparr>, Some (now + 200, g))
       \<and> changeGuess_page now g (s, tm) = (s\<lparr>guess := g\<rparr>, Some (now + 250, g))
       \<and> (t < now + 200 \<longrightarrow>
            tick t r (changeGuess now g (s, tm)) = (changeGuess now g (s, tm), []))
       \<and> (t < now + 250 \<longrightarrow>
            tick_page t r (changeGuess_page now g (s, tm)) = (changeGuess_page now g (s, tm), []))
       \<and> (now + 200 \<le> t \<longrightarrow>
            snd (tick t r (changeGuess now g (s, tm)))
              = (if encodable g then [GET_autocomplete g] else [])
            \<and> snd (fst (tick t r (changeGuess now g (s, tm)))) = None)
       \<and> (now + 250 \<le> t \<longrightarrow>
            snd (tick_page t r (changeGuess_page now g (s, tm)))
              = (if encodable g then [GET_autocomplete g] else [])
            \<and> snd (fst (tick_page t r (changeGuess_page now g (s, tm)))) = None)
       \<and> (g' \<noteq> g \<longrightarrow>
            snd (changeGuess t g' (changeGuess now g (s, tm)))
              = (if trim g' = [] then None else Some (t + 200, g'))
            \<and> snd (changeGuess_page t g' (changeGuess_page now g (s, tm)))
              = (if trim g' = [] then None else Some (t + 250, g')))
       \<and> (g' \<noteq> g \<and> t2 < t + 200 \<longrightarrow>
            snd (tick t2 r (changeGuess t g' (changeGuess now g (s, tm)))) = [])
       \<and> (g' \<noteq> g \<and> t2 < t + 250 \<longrightarrow>
            snd (tick_page t2 r (changeGuess_page t g' (changeGuess_page now g (s, tm)))) = [])"
proof -
  have a: "changeGuess now g (s, tm) = (s\<lparr>guess := g\<rparr>, Some (now + 200, g))"
    using assms by (simp add: changeGuess_def autocompleteEffect_def)
  have b: "changeGuess_page now g (s, tm) = (s\<lparr>guess := g\<rparr>, Some (now + 250, g))"
    using assms by (simp add: changeGuess_page_def autocompleteEffect_page_def)
  have c: "g' \<noteq> g \<longrightarrow> snd (changeGuess t g' (s\<lparr>guess := g\<rparr>, Some (now + 200, g)))
              = (if trim g' = [] then None else Some (t + 200, g'))"
    by (simp add: changeGuess_def autocompleteEffect_def)
  have d: "g' \<noteq> g \<longrightarrow> snd (changeGuess_page t g' (s\<lparr>guess := g\<rparr>, Some (now + 250, g)))
              = (if trim g' = [] then None else Some (t + 250, g'))"
    by (simp add: changeGuess_page_def autocompleteEffect_page_def)
  show ?thesis
    unfolding a b using c d by (simp add: tick_def tick_page_def)
qed

theorem autocomplete_debounce_witness:
  "js ''a'' \<noteq> guess (playing\<lparr>guess := []\<rparr>) \<and> trim (js ''a'') \<noteq> [] \<and> encodable (js ''a'')
   \<and> snd (tick 199 (Ok None) (changeGuess 0 (js ''a'') (playing\<lparr>guess := []\<rparr>, None))) = []
   \<and> snd (tick 200 (Ok None) (changeGuess 0 (js ''a'') (playing\<lparr>guess := []\<rparr>, None)))
       = [GET_autocomplete (js ''a'')]
   \<and> snd (tick_page 249 (Ok None) (changeGuess_page 0 (js ''a'') (playing\<lparr>guess := []\<rparr>, None)))
       = []
   \<and> snd (tick_page 250 (Ok None) (changeGuess_page 0 (js ''a'') (playing\<lparr>guess := []\<rparr>, None)))
       = [GET_autocomplete (js ''a'')]
   \<and> snd (tick 200 (Ok None)
        (changeGuess 150 (js ''ab'') (changeGuess 0 (js ''a'') (playing\<lparr>guess := []\<rparr>, None))))
       = []"
proof -
  have a: "js ''a'' \<noteq> guess (playing\<lparr>guess := []\<rparr>)" by (simp add: js_def)
  have b: "trim (js ''a'') \<noteq> []" by (simp add: js_def trim_def isWhiteSpace_def)
  have c: "js ''ab'' \<noteq> js ''a''" by (simp add: js_def)
  have e: "encodable (js ''a'')" by (simp add: js_def)
  have "(199::nat) < 0 + 200 \<longrightarrow>
      tick 199 (Ok None) (changeGuess 0 (js ''a'') (playing\<lparr>guess := []\<rparr>, None))
        = (changeGuess 0 (js ''a'') (playing\<lparr>guess := []\<rparr>, None), [])"
    using autocomplete_debounce
      [OF a b, where now = 0 and tm = None and t = 199 and r = "Ok None"
        and g' = "[]" and ?t2.0 = 0]
    by blast
  then have 1:
    "snd (tick 199 (Ok None) (changeGuess 0 (js ''a'') (playing\<lparr>guess := []\<rparr>, None))) = []"
    by simp
  have "(0::nat) + 200 \<le> 200 \<longrightarrow>
      snd (tick 200 (Ok None) (changeGuess 0 (js ''a'') (playing\<lparr>guess := []\<rparr>, None)))
        = (if encodable (js ''a'') then [GET_autocomplete (js ''a'')] else [])"
    using autocomplete_debounce
      [OF a b, where now = 0 and tm = None and t = 200 and r = "Ok None"
        and g' = "[]" and ?t2.0 = 0]
    by blast
  with e have 2:
    "snd (tick 200 (Ok None) (changeGuess 0 (js ''a'') (playing\<lparr>guess := []\<rparr>, None)))
       = [GET_autocomplete (js ''a'')]"
    by simp
  have "(249::nat) < 0 + 250 \<longrightarrow>
      tick_page 249 (Ok None) (changeGuess_page 0 (js ''a'') (playing\<lparr>guess := []\<rparr>, None))
        = (changeGuess_page 0 (js ''a'') (playing\<lparr>guess := []\<rparr>, None), [])"
    using autocomplete_debounce
      [OF a b, where now = 0 and tm = None and t = 249 and r = "Ok None"
        and g' = "[]" and ?t2.0 = 0]
    by blast
  then have 3:
    "snd (tick_page 249 (Ok None) (changeGuess_page 0 (js ''a'') (playing\<lparr>guess := []\<rparr>, None)))
       = []"
    by simp
  have "(0::nat) + 250 \<le> 250 \<longrightarrow>
      snd (tick_page 250 (Ok None) (changeGuess_page 0 (js ''a'') (playing\<lparr>guess := []\<rparr>, None)))
        = (if encodable (js ''a'') then [GET_autocomplete (js ''a'')] else [])"
    using autocomplete_debounce
      [OF a b, where now = 0 and tm = None and t = 250 and r = "Ok None"
        and g' = "[]" and ?t2.0 = 0]
    by blast
  with e have 4:
    "snd (tick_page 250 (Ok None) (changeGuess_page 0 (js ''a'') (playing\<lparr>guess := []\<rparr>, None)))
       = [GET_autocomplete (js ''a'')]"
    by simp
  have "js ''ab'' \<noteq> js ''a'' \<and> (200::nat) < 150 + 200 \<longrightarrow>
      snd (tick 200 (Ok None)
        (changeGuess 150 (js ''ab'') (changeGuess 0 (js ''a'') (playing\<lparr>guess := []\<rparr>, None))))
       = []"
    using autocomplete_debounce
      [OF a b, where now = 0 and tm = None and t = 150 and r = "Ok None"
        and g' = "js ''ab''" and ?t2.0 = 200]
    by blast
  with c have 5: "snd (tick 200 (Ok None)
        (changeGuess 150 (js ''ab'') (changeGuess 0 (js ''a'') (playing\<lparr>guess := []\<rparr>, None))))
       = []"
    by simp
  from a b e 1 2 3 4 5 show ?thesis by blast
qed

end
